theory Spec2Isabelle
  imports Main "HOL-Library.Word"
begin

section \<open>The handle class of shared/shmem.h\<close>

text \<open>
  Pointers are 64-bit addresses, \<open>size_t\<close> is a 64-bit unsigned word, \<open>int\<close> and
  \<open>pid_t\<close> are 32-bit words, \<open>int64_t\<close> is a 64-bit word.
\<close>

type_synonym addr = "64 word"
type_synonym size_t = "64 word"
type_synonym c_int = "32 word"
type_synonym pid_t = "32 word"
type_synonym int64_t = "64 word"
type_synonym byte = "8 word"

definition nullptr :: addr where
  "nullptr = 0"

text \<open>The data members of \<open>class GhostShmem\<close>, in declaration order. The trailing
  underscore of each C++ member name is written as a prime.\<close>

record GhostShmem =
  shmem' :: addr
  map_size' :: size_t
  memfd' :: c_int
  hdr' :: addr
  data' :: addr

text \<open>\<open>static constexpr int kHeaderReservedBytes = 4096;\<close>\<close>

definition kHeaderReservedBytes :: c_int where
  "kHeaderReservedBytes = 4096"

text \<open>
  \<open>GhostShmem() {}\<close>: the body is empty, so the members take their default member
  initialisers: \<open>shmem_ = nullptr\<close>, \<open>memfd_ = -1\<close>, \<open>hdr_ = nullptr\<close>. The members
  \<open>map_size_\<close> and \<open>data_\<close> have no initialiser; their indeterminate values are the
  two arguments.
\<close>

definition GhostShmem_default :: "size_t \<Rightarrow> addr \<Rightarrow> GhostShmem" where
  "GhostShmem_default indet_size indet_data =
     \<lparr>shmem' = nullptr, map_size' = indet_size, memfd' = - 1, hdr' = nullptr,
      data' = indet_data\<rparr>"

text \<open>\<open>inline char* bytes() { return static_cast<char*>(data_); }\<close>\<close>

definition bytes :: "GhostShmem \<Rightarrow> addr" where
  "bytes h = data' h"

text \<open>\<open>size_t absolute_size() const { return map_size_; }\<close>\<close>

definition absolute_size :: "GhostShmem \<Rightarrow> size_t" where
  "absolute_size h = map_size' h"

text \<open>\<open>inline const void* absolute_start() const { return shmem_; }\<close>\<close>

definition absolute_start :: "GhostShmem \<Rightarrow> addr" where
  "absolute_start h = shmem' h"

text \<open>
  \<open>static size_t OverHeadbytes() { return kHeaderReservedBytes; }\<close>: the \<open>int\<close>
  constant is converted to \<open>size_t\<close> on return (sign extension).
\<close>

definition OverHeadbytes :: size_t where
  "OverHeadbytes = scast kHeaderReservedBytes"

section \<open>Constants of the platform\<close>

text \<open>
  The huge-page granularity, the fixed string combined with a caller's region name, and
  the bounds of the readiness wait are used by the operations below but are declared
  nowhere in shared/shmem.h; they are parameters of the model.
\<close>

record platform =
  huge_page_size :: size_t
  class_suffix :: string
  spin_limit :: nat
  poll_limit :: nat

section \<open>Layout policy\<close>

text \<open>
  Modelled from the spec: the sizing done by \<open>CreateShmem\<close>, whose body is not in
  shared/shmem.h. \<open>round_up x g\<close> is the usual integer round-up to a multiple of
  \<open>g\<close>, computed on \<open>size_t\<close>, the type of the constructor's \<open>size\<close> argument
  and of \<open>map_size_\<close>, so sums and products wrap around at \<open>2^64\<close>.
  "Plan(requested_size) -> total_size: total_size =
  round_up(header_reserved_bytes + requested_size, huge_page_size)". The huge-page size is
  a nonzero constant of the platform; the properties of the rounding assume it nonzero.
\<close>

definition round_up :: "size_t \<Rightarrow> size_t \<Rightarrow> size_t" where
  "round_up x g = ((x + (g - 1)) div g) * g"

definition Plan :: "platform \<Rightarrow> size_t \<Rightarrow> size_t" where
  "Plan P requested_size = round_up (OverHeadbytes + requested_size) (huge_page_size P)"

section \<open>Region header and backing object\<close>

text \<open>
  Modelled from the spec: \<open>struct InternalHeader\<close> is only forward-declared in
  shared/shmem.h. "Header wire format: { version: 8-byte integer, readiness: atomic flag,
  payload_size: size integer, padding to header_reserved_bytes }".
\<close>

record InternalHeader =
  version :: int64_t
  readiness :: bool
  payload_size :: size_t

text \<open>
  Modelled from the spec: the backing memory object of a region: the name it is tagged
  with, its length, the header at offset 0 and the payload bytes, indexed from the
  address \<open>bytes()\<close>.
\<close>

record shm_object =
  obj_tag :: string
  obj_len :: size_t
  obj_hdr :: InternalHeader
  obj_payload :: "nat \<Rightarrow> byte"

text \<open>
  Modelled from the spec: Create, step 2, "allocate an anonymous, huge-page-hinted memory
  object tagged with a name derived from name". The allocation itself is a platform
  service that is not in shared/shmem.h; a new object reads as zero bytes until
  it is written.
\<close>

definition zero_header :: InternalHeader where
  "zero_header = \<lparr>version = 0, readiness = False, payload_size = 0\<rparr>"

definition fresh_object :: "string \<Rightarrow> size_t \<Rightarrow> shm_object" where
  "fresh_object tag len =
     \<lparr>obj_tag = tag, obj_len = len, obj_hdr = zero_header, obj_payload = (\<lambda>_. 0)\<rparr>"

text \<open>
  Modelled from the spec: Create, step 4: "Initialize header: version, payload size,
  readiness = false". The payload size is the usable size behind the header
  ("client usable bytes addressable via bytes()", shared/shmem.h line 63).
\<close>

definition init_header :: "int64_t \<Rightarrow> size_t \<Rightarrow> InternalHeader" where
  "init_header client_version total_size =
     \<lparr>version = client_version, readiness = False, payload_size = total_size - OverHeadbytes\<rparr>"

section \<open>Readiness barrier: the host's side\<close>

text \<open>
  Modelled from the spec: \<open>MarkReady\<close> is declared in shared/shmem.h without a body.
  "MarkReady(): stores readiness = true". After Create has returned, the host acts on
  the region through its handle: it writes payload bytes through \<open>bytes()\<close> and calls
  \<open>MarkReady\<close>. A write beyond the payload size read from the header is outside the
  payload and stores nothing.
\<close>

definition MarkReady :: "shm_object \<Rightarrow> shm_object" where
  "MarkReady ob = ob\<lparr>obj_hdr := (obj_hdr ob)\<lparr>readiness := True\<rparr>\<rparr>"

definition write_payload :: "nat \<Rightarrow> byte \<Rightarrow> shm_object \<Rightarrow> shm_object" where
  "write_payload i b ob =
     (if i < unat (payload_size (obj_hdr ob))
      then ob\<lparr>obj_payload := (obj_payload ob)(i := b)\<rparr> else ob)"

datatype host_op = WritePayload nat byte | CallMarkReady

text \<open>
  Modelled from the spec: "the caller-supplied name is combined with a fixed per-class
  suffix before being applied to the backing object".
\<close>

definition region_tag :: "platform \<Rightarrow> string \<Rightarrow> string" where
  "region_tag P name = name @ class_suffix P"

text \<open>
  Modelled from the spec: the backing object as Create leaves it, tagged and sized in
  step 2, its header initialised in step 4.
\<close>

definition created_object :: "platform \<Rightarrow> int64_t \<Rightarrow> string \<Rightarrow> size_t \<Rightarrow> shm_object" where
  "created_object P client_version name requested_size =
     (fresh_object (region_tag P name) (Plan P requested_size))
       \<lparr>obj_hdr := init_header client_version (Plan P requested_size)\<rparr>"

section \<open>The host's stores to the shared object\<close>

text \<open>
  Modelled from the spec: the writes of the host to the backing object, one atomic store
  each, in program order. Create, step 4, stores the three header fields in the order the
  spec lists them ("Initialize header: version, payload size, readiness = false"); every
  later operation of the host through its handle is one store: a payload byte, or the
  readiness flag set by \<open>MarkReady\<close>. The object exists, tagged and discoverable, from
  step 2 on, before any of these stores.
\<close>

datatype shm_store =
  StoreVersion int64_t | StorePayloadSize size_t | StoreReadiness bool | StoreByte nat byte

fun apply_store :: "shm_store \<Rightarrow> shm_object \<Rightarrow> shm_object" where
  "apply_store (StoreVersion v) ob = ob\<lparr>obj_hdr := (obj_hdr ob)\<lparr>version := v\<rparr>\<rparr>"
| "apply_store (StorePayloadSize n) ob = ob\<lparr>obj_hdr := (obj_hdr ob)\<lparr>payload_size := n\<rparr>\<rparr>"
| "apply_store (StoreReadiness b) ob = ob\<lparr>obj_hdr := (obj_hdr ob)\<lparr>readiness := b\<rparr>\<rparr>"
| "apply_store (StoreByte i b) ob = write_payload i b ob"



fun op_store :: "host_op \<Rightarrow> shm_store" where
  "op_store (WritePayload i b) = StoreByte i b"
| "op_store CallMarkReady = StoreReadiness True"







section \<open>Processes, descriptors and mappings\<close>

text \<open>
  Modelled from the spec: the platform services the protocol consumes ("per-pid
  open-descriptor enumeration and identification; memory mapping/unmapping primitives").
  A world records which processes exist, who may introspect whose descriptor table, the
  descriptor table of each process in enumeration order, the names each process
  currently hosts (the registry of Create, step 1), the mappings of each process by base
  address, and the backing objects.
\<close>

type_synonym obj_id = nat

record world =
  alive :: "pid_t \<Rightarrow> bool"
  may_inspect :: "pid_t \<Rightarrow> pid_t \<Rightarrow> bool"
  fds :: "pid_t \<Rightarrow> (c_int \<times> obj_id) list"
  hosted :: "pid_t \<Rightarrow> string list"
  mappings :: "pid_t \<Rightarrow> addr \<rightharpoonup> obj_id \<times> size_t"
  objs :: "obj_id \<rightharpoonup> shm_object"

text \<open>
  Modelled from the spec: the elementary changes of the world: the registry
  check-and-insert of Create and its undoing, opening and closing a descriptor, mapping
  and unmapping, allocating a tagged object with its first descriptor, reclaiming an
  object, storing a header.
\<close>

definition registry_insert :: "pid_t \<Rightarrow> string \<Rightarrow> world \<Rightarrow> world" where
  "registry_insert self name w = w\<lparr>hosted := (hosted w)(self := name # hosted w self)\<rparr>"

definition registry_remove :: "pid_t \<Rightarrow> string \<Rightarrow> world \<Rightarrow> world" where
  "registry_remove self name w = w\<lparr>hosted := (hosted w)(self := remove1 name (hosted w self))\<rparr>"

definition open_fd :: "pid_t \<Rightarrow> c_int \<Rightarrow> obj_id \<Rightarrow> world \<Rightarrow> world" where
  "open_fd self fd oid w = w\<lparr>fds := (fds w)(self := fds w self @ [(fd, oid)])\<rparr>"

definition close_fd :: "pid_t \<Rightarrow> c_int \<Rightarrow> world \<Rightarrow> world" where
  "close_fd self fd w =
     w\<lparr>fds := (fds w)(self := filter (\<lambda>e. fst e \<noteq> fd) (fds w self))\<rparr>"

definition map_object :: "pid_t \<Rightarrow> addr \<Rightarrow> obj_id \<Rightarrow> size_t \<Rightarrow> world \<Rightarrow> world" where
  "map_object self base oid len w =
     w\<lparr>mappings := (mappings w)(self := (mappings w self)(base \<mapsto> (oid, len)))\<rparr>"

definition unmap :: "pid_t \<Rightarrow> addr \<Rightarrow> world \<Rightarrow> world" where
  "unmap self base w = w\<lparr>mappings := (mappings w)(self := (mappings w self)(base := None))\<rparr>"

definition allocate :: "pid_t \<Rightarrow> c_int \<Rightarrow> obj_id \<Rightarrow> string \<Rightarrow> size_t \<Rightarrow> world \<Rightarrow> world" where
  "allocate self fd oid tag len w =
     open_fd self fd oid (w\<lparr>objs := (objs w)(oid \<mapsto> fresh_object tag len)\<rparr>)"

definition reclaim :: "obj_id \<Rightarrow> world \<Rightarrow> world" where
  "reclaim oid w = w\<lparr>objs := (objs w)(oid := None)\<rparr>"

definition write_header :: "obj_id \<Rightarrow> InternalHeader \<Rightarrow> world \<Rightarrow> world" where
  "write_header oid header w =
     (case objs w oid of
        None \<Rightarrow> w
      | Some ob \<Rightarrow> w\<lparr>objs := (objs w)(oid \<mapsto> ob\<lparr>obj_hdr := header\<rparr>)\<rparr>)"

text \<open>
  Modelled from the spec: reading the header ("fixed-size block at mapping offset 0")
  through a pointer of process \<open>self\<close>; \<open>None\<close> where the pointer is not the base of
  one of its mappings.
\<close>

definition header_at :: "world \<Rightarrow> pid_t \<Rightarrow> addr \<Rightarrow> InternalHeader option" where
  "header_at w self a =
     (case mappings w self a of
        None \<Rightarrow> None
      | Some (oid, len) \<Rightarrow> map_option obj_hdr (objs w oid))"

text \<open>
  Modelled from the spec: \<open>size_t size();\<close> is declared in shared/shmem.h without a
  body. "size()/absolute_size() from header-declared values": the payload size read
  through \<open>hdr_\<close>.
\<close>

definition GhostShmem_size :: "world \<Rightarrow> pid_t \<Rightarrow> GhostShmem \<Rightarrow> size_t option" where
  "GhostShmem_size w self h = map_option payload_size (header_at w self (hdr' h))"

text \<open>
  Modelled from the spec: the members that \<open>CreateShmem\<close> and \<open>ConnectShmem\<close> (no
  bodies in shared/shmem.h) give a handle owning the mapping at \<open>base\<close>. "Region header:
  fixed-size block at mapping offset 0"; "bytes() = base + header_reserved_bytes".
\<close>

definition region_handle :: "c_int \<Rightarrow> addr \<Rightarrow> size_t \<Rightarrow> GhostShmem" where
  "region_handle fd base total_size =
     \<lparr>shmem' = base, map_size' = total_size, memfd' = fd, hdr' = base,
      data' = base + OverHeadbytes\<rparr>"

section \<open>Host creator\<close>

datatype CreateError = NameCollisionError | AllocationError | MappingError

text \<open>
  Modelled from the spec: the constructor \<open>GhostShmem(client_version, name, size)\<close> and
  \<open>CreateShmem\<close> are declared in shared/shmem.h without bodies. The steps are those of
  "Create(version, name, size) -> Region | CreateError":
  1. registry check-and-insert, 2. allocate the tagged object sized by the layout policy,
  3. map it, 4. initialise the header, 5. return the handle; "construction is
  all-or-nothing". The outcome of the allocation (the new descriptor and object, or
  failure) and of the mapping (the base address, or failure) are the platform's and are
  arguments. The result is the error or the handle, and the world after the call.
\<close>

definition CreateShmem ::
  "platform \<Rightarrow> world \<Rightarrow> pid_t \<Rightarrow> int64_t \<Rightarrow> string \<Rightarrow> size_t \<Rightarrow>
   (c_int \<times> obj_id) option \<Rightarrow> addr option \<Rightarrow> (CreateError + GhostShmem) \<times> world" where
  "CreateShmem P w self client_version name requested_size alloc mapped =
     (if name \<in> set (hosted w self) then (Inl NameCollisionError, w)
      else
        let w1 = registry_insert self name w in
        case alloc of
          None \<Rightarrow> (Inl AllocationError, registry_remove self name w1)
        | Some (fd, oid) \<Rightarrow>
            let total_size = Plan P requested_size;
                w2 = allocate self fd oid (region_tag P name) total_size w1
            in case mapped of
                 None \<Rightarrow>
                   (Inl MappingError, registry_remove self name (reclaim oid (close_fd self fd w2)))
               | Some base \<Rightarrow>
                   let w3 = map_object self base oid total_size w2;
                       w4 = write_header oid (init_header client_version total_size) w3
                   in (Inr (region_handle fd base total_size), w4))"



section \<open>Readiness barrier: the client's side\<close>

text \<open>
  Modelled from the spec: \<open>WaitForReady\<close> is declared in shared/shmem.h without a
  body. "bounded spin-then-poll": the flag is read at most \<open>spin_limit\<close> times, then
  at most \<open>poll_limit\<close> more times. \<open>flag k\<close> is what the \<open>k\<close>-th read of the flag
  returns. The result tells whether readiness was observed, and how many reads were made.
\<close>

fun await_flag :: "nat \<Rightarrow> (nat \<Rightarrow> bool) \<Rightarrow> nat \<Rightarrow> bool \<times> nat" where
  "await_flag 0 flag k = (False, k)"
| "await_flag (Suc n) flag k = (if flag k then (True, Suc k) else await_flag n flag (Suc k))"

definition WaitForReady :: "platform \<Rightarrow> (nat \<Rightarrow> bool) \<Rightarrow> bool \<times> nat" where
  "WaitForReady P flag =
     (case await_flag (spin_limit P) flag 0 of
        (True, k) \<Rightarrow> (True, k)
      | (False, k) \<Rightarrow> await_flag (poll_limit P) flag k)"

text \<open>
  Modelled from the spec: the flag as a waiting client reads it ("readers either observe
  Uninitialized and block/poll, or observe Ready and proceed"): the value stored in the
  header when the wait begins, and true from the read at which a concurrent
  \<open>MarkReady\<close> of the host has taken effect (\<open>None\<close>: the host does not call it
  during the wait).
\<close>

definition flag_reads :: "bool \<Rightarrow> nat option \<Rightarrow> nat \<Rightarrow> bool" where
  "flag_reads stored marked k =
     (stored \<or> (case marked of None \<Rightarrow> False | Some t \<Rightarrow> t \<le> k))"

section \<open>Client attacher\<close>

datatype AttachError =
  PermissionError | NotFoundError | VersionMismatchError | ReadinessTimeoutError

text \<open>
  Modelled from the spec: \<open>OpenGhostShmemFd\<close> is declared in shared/shmem.h without a
  body. Attach, steps 1 and 2: a pid that does not exist has no descriptor table
  (\<open>NotFoundError\<close>); a table the caller may not introspect is \<open>PermissionError\<close>; the
  table is scanned in order for a descriptor whose object carries the looked-up name,
  "first match wins", "no match => NotFoundError".
\<close>

definition names_region :: "world \<Rightarrow> string \<Rightarrow> c_int \<times> obj_id \<Rightarrow> bool" where
  "names_region w tag e =
     (case objs w (snd e) of None \<Rightarrow> False | Some ob \<Rightarrow> obj_tag ob = tag)"

definition OpenGhostShmemFd ::
  "platform \<Rightarrow> world \<Rightarrow> pid_t \<Rightarrow> string \<Rightarrow> pid_t \<Rightarrow> AttachError + obj_id" where
  "OpenGhostShmemFd P w self name pid =
     (if \<not> alive w pid then Inl NotFoundError
      else if \<not> may_inspect w self pid then Inl PermissionError
      else case find (names_region w (region_tag P name)) (fds w pid) of
             None \<Rightarrow> Inl NotFoundError
           | Some e \<Rightarrow> Inr (snd e))"

text \<open>
  Modelled from the spec: "any partial local mapping is released before the call
  returns": the mapping is unmapped and the local descriptor closed.
\<close>

definition unwind :: "pid_t \<Rightarrow> c_int \<Rightarrow> addr \<Rightarrow> world \<Rightarrow> world" where
  "unwind self fd base w = close_fd self fd (unmap self base w)"

text \<open>
  Modelled from the spec: \<open>Attach\<close> and \<open>ConnectShmem\<close> are declared in
  shared/shmem.h without bodies. The steps are those of "Attach(version, name, pid) ->
  bool": 1-2. discovery, 3. open a local reference and map the reserved header bytes,
  4. read the declared size and extend the mapping to it, 5. compare the version,
  6. wait for readiness, 7. populate the handle. The local descriptor \<open>lfd\<close> and the
  address \<open>base\<close> are chosen by the platform; \<open>marked\<close> is when the host's
  \<open>MarkReady\<close> takes effect during the wait. The result is the error (the call returns
  false) or unit (it returns true), the handle and the world after the call. The header
  is read through the new mapping; the branch where no header can be read there is never
  taken after a successful discovery, and releases what was acquired.
\<close>

definition Attach ::
  "platform \<Rightarrow> world \<Rightarrow> pid_t \<Rightarrow> GhostShmem \<Rightarrow> int64_t \<Rightarrow> string \<Rightarrow> pid_t \<Rightarrow>
   c_int \<Rightarrow> addr \<Rightarrow> nat option \<Rightarrow> (AttachError + unit) \<times> GhostShmem \<times> world" where
  "Attach P w self h client_version name pid lfd base marked =
     (case OpenGhostShmemFd P w self name pid of
        Inl e \<Rightarrow> (Inl e, h, w)
      | Inr oid \<Rightarrow>
          let w1 = map_object self base oid OverHeadbytes (open_fd self lfd oid w) in
          case header_at w1 self base of
            None \<Rightarrow> (Inl NotFoundError, h, unwind self lfd base w1)
          | Some header \<Rightarrow>
              let total_size = OverHeadbytes + payload_size header;
                  w2 = map_object self base oid total_size w1
              in if version header \<noteq> client_version
                 then (Inl VersionMismatchError, h, unwind self lfd base w2)
                 else if \<not> fst (WaitForReady P (flag_reads (readiness header) marked))
                 then (Inl ReadinessTimeoutError, h, unwind self lfd base w2)
                 else (Inr (), region_handle lfd base total_size, w2))"

section \<open>A concrete scenario\<close>

text \<open>
  Two-megabyte huge pages; process 7 is the host, process 9 a client that may introspect
  it, process 8 exists but may not be introspected by anyone.
\<close>

definition example_platform :: platform where
  "example_platform =
     \<lparr>huge_page_size = 2097152, class_suffix = ''-ghost'', spin_limit = 2, poll_limit = 3\<rparr>"

definition example_world :: world where
  "example_world =
     \<lparr>alive = (\<lambda>p. p = 7 \<or> p = 8 \<or> p = 9),
      may_inspect = (\<lambda>a b. a = 9 \<and> b = 7),
      fds = (\<lambda>_. []),
      hosted = (\<lambda>_. []),
      mappings = (\<lambda>_. Map.empty),
      objs = Map.empty\<rparr>"

text \<open>The world after the host has created the region "stats" of 4096 bytes, version 3.\<close>

definition hosting_world :: world where
  "hosting_world =
     snd (CreateShmem example_platform example_world 7 3 ''stats'' 4096
            (Some (3, 0)) (Some 0x10000000))"



section \<open>Properties\<close>

subsection \<open>Arithmetic of the layout policy\<close>

lemma OverHeadbytes_value: "OverHeadbytes = 4096"
  by (simp add: OverHeadbytes_def kHeaderReservedBytes_def)

lemma unat_round_up:
  assumes g: "g \<noteq> 0" and b: "unat x + (unat g - 1) < 2 ^ 64"
  shows "unat (round_up x g) = ((unat x + (unat g - 1)) div unat g) * unat g"
proof -
  have g1: "unat (g - 1) = unat g - 1"
    using g by (simp add: unat_minus_one)
  have s: "unat (x + (g - 1)) = unat x + (unat g - 1)"
    using b g1 by (simp add: unat_add_lem [THEN iffD1])
  have d: "unat ((x + (g - 1)) div g) = (unat x + (unat g - 1)) div unat g"
    by (simp add: unat_div s)
  have le: "((unat x + (unat g - 1)) div unat g) * unat g \<le> unat x + (unat g - 1)"
    by simp
  have "((unat x + (unat g - 1)) div unat g) * unat g < 2 ^ 64"
    by (rule le_less_trans [OF le b])
  then have lt: "unat ((x + (g - 1)) div g) * unat g < 2 ^ LENGTH(64)"
    by (simp add: d)
  have m: "unat (((x + (g - 1)) div g) * g) = unat ((x + (g - 1)) div g) * unat g"
    by (rule unat_mult_lem [THEN iffD1, OF lt])
  show ?thesis
    unfolding round_up_def using m d by simp
qed

lemma round_up_ge_nat:
  assumes "0 < (g::nat)"
  shows "x \<le> ((x + (g - 1)) div g) * g"
proof -
  have "x + (g - 1) = ((x + (g - 1)) div g) * g + (x + (g - 1)) mod g"
    by simp
  moreover have "(x + (g - 1)) mod g \<le> g - 1"
    using assms by (simp add: less_Suc_eq_le [symmetric] del: less_Suc_eq_le)
  ultimately show ?thesis by linarith
qed

lemma Plan_no_wrap:
  assumes g: "huge_page_size P \<noteq> 0"
    and b: "unat OverHeadbytes + unat S + (unat (huge_page_size P) - 1) < 2 ^ 64"
  shows "unat (Plan P S) =
     ((unat OverHeadbytes + unat S + (unat (huge_page_size P) - 1)) div unat (huge_page_size P))
       * unat (huge_page_size P)"
proof -
  have a: "unat (OverHeadbytes + S) = unat OverHeadbytes + unat S"
    using b by (simp add: unat_add_lem [THEN iffD1])
  show ?thesis
    unfolding Plan_def using unat_round_up [OF g, of "OverHeadbytes + S"] a b by simp
qed

lemma Plan_bounds:
  assumes g: "huge_page_size P \<noteq> 0"
    and b: "unat OverHeadbytes + unat S + (unat (huge_page_size P) - 1) < 2 ^ 64"
  shows "unat OverHeadbytes + unat S \<le> unat (Plan P S)"
    and "unat (huge_page_size P) dvd unat (Plan P S)"
    and "unat S \<le> unat (Plan P S - OverHeadbytes)"
proof -
  have pos: "0 < unat (huge_page_size P)"
    using g by (simp add: unat_gt_0)
  show ge: "unat OverHeadbytes + unat S \<le> unat (Plan P S)"
    using Plan_no_wrap [OF g b] round_up_ge_nat [OF pos, of "unat OverHeadbytes + unat S"]
    by simp
  show "unat (huge_page_size P) dvd unat (Plan P S)"
    using Plan_no_wrap [OF g b] by simp
  have "OverHeadbytes \<le> Plan P S"
    using ge by (simp add: word_le_nat_alt)
  then have "unat (Plan P S - OverHeadbytes) = unat (Plan P S) - unat OverHeadbytes"
    by (simp add: unat_sub)
  then show "unat S \<le> unat (Plan P S - OverHeadbytes)"
    using ge by simp
qed

subsection \<open>What a successful Create returns\<close>

lemma CreateShmem_Inr:
  assumes "CreateShmem P w self v name S alloc mapped = (Inr h, w')"
  obtains fd oid base where
    "alloc = Some (fd, oid)" "mapped = Some base" "name \<notin> set (hosted w self)"
    "h = region_handle fd base (Plan P S)"
    "w' = write_header oid (init_header v (Plan P S))
            (map_object self base oid (Plan P S)
               (allocate self fd oid (region_tag P name) (Plan P S)
                  (registry_insert self name w)))"
  using assms
  by (auto simp: CreateShmem_def Let_def split: if_splits option.splits prod.splits)

lemma header_after_Create:
  "header_at
     (write_header oid hd0
        (map_object self base oid len (allocate self fd oid tag len w)))
     self base = Some hd0"
  by (simp add: header_at_def write_header_def map_object_def allocate_def open_fd_def)

lemma example_Create:
  "CreateShmem example_platform example_world 7 3 ''stats'' 4096 (Some (3, 0)) (Some 0x10000000)
   = (Inr (region_handle 3 0x10000000 2097152), hosting_world)"
  by (simp add: hosting_world_def)
    (simp add: CreateShmem_def example_platform_def example_world_def Plan_def round_up_def
      OverHeadbytes_value)

subsection \<open>The default-constructed handle\<close>

text \<open>
  Claim C10. A default-constructed \<open>GhostShmem\<close> owns no region: whatever the
  indeterminate values of its uninitialised members, its \<open>shmem_\<close> and \<open>hdr_\<close> are
  null, its \<open>memfd_\<close> is -1, and \<open>absolute_start()\<close> returns \<open>nullptr\<close>.
\<close>

theorem default_handle_owns_nothing:
  "shmem' (GhostShmem_default indet_size indet_data) = nullptr
   \<and> hdr' (GhostShmem_default indet_size indet_data) = nullptr
   \<and> sint (memfd' (GhostShmem_default indet_size indet_data)) = - 1
   \<and> absolute_start (GhostShmem_default indet_size indet_data) = nullptr"
  by (simp add: GhostShmem_default_def absolute_start_def)

subsection \<open>Sizes of a created region\<close>

text \<open>
  Within the range of \<open>size_t\<close> the sizes are as shared/shmem.h documents them ("It is
  guaranteed that the useful size will be at least size"). For a nonzero huge-page size
  and every requested size \<open>S\<close> for which
  \<open>header_reserved_bytes + S + (huge_page_size - 1)\<close> does not exceed that range, a
  successful construction yields \<open>absolute_size()\<close> equal to
  \<open>header_reserved_bytes + S\<close> rounded up to the huge-page size; \<open>size()\<close> is at
  least \<open>S\<close>, \<open>absolute_size()\<close> is at least \<open>S + header_reserved_bytes\<close>, and
  \<open>absolute_size()\<close> is a multiple of the huge-page size.
\<close>

theorem Create_layout_without_wrap:
  assumes "huge_page_size P \<noteq> 0"
    and "unat OverHeadbytes + unat S + (unat (huge_page_size P) - 1) < 2 ^ 64"
    and "CreateShmem P w self v name S alloc mapped = (Inr h, w')"
  shows "absolute_size h = Plan P S
    \<and> unat (absolute_size h) =
        ((unat OverHeadbytes + unat S + (unat (huge_page_size P) - 1))
           div unat (huge_page_size P)) * unat (huge_page_size P)
    \<and> GhostShmem_size w' self h = Some (Plan P S - OverHeadbytes)
    \<and> unat S \<le> unat (Plan P S - OverHeadbytes)
    \<and> unat S + unat OverHeadbytes \<le> unat (absolute_size h)
    \<and> unat (huge_page_size P) dvd unat (absolute_size h)"
proof -
  from assms(3) obtain fd oid base where
    h: "h = region_handle fd base (Plan P S)" and
    w': "w' = write_header oid (init_header v (Plan P S))
            (map_object self base oid (Plan P S)
               (allocate self fd oid (region_tag P name) (Plan P S)
                  (registry_insert self name w)))"
    by (rule CreateShmem_Inr)
  have a: "absolute_size h = Plan P S"
    by (simp add: h absolute_size_def region_handle_def)
  have "header_at w' self (hdr' h) = Some (init_header v (Plan P S))"
    unfolding w' using header_after_Create by (simp add: h region_handle_def)
  then have sz: "GhostShmem_size w' self h = Some (Plan P S - OverHeadbytes)"
    by (simp add: GhostShmem_size_def init_header_def)
  show ?thesis
    using a sz Plan_no_wrap [OF assms(1,2)] Plan_bounds [OF assms(1,2)] by simp
qed

theorem Create_layout_without_wrap_witness:
  "huge_page_size example_platform \<noteq> 0
   \<and> unat OverHeadbytes + unat (4096 :: size_t) + (unat (huge_page_size example_platform) - 1)
       < 2 ^ 64
   \<and> absolute_size (region_handle 3 0x10000000 2097152) = 2097152
   \<and> GhostShmem_size hosting_world 7 (region_handle 3 0x10000000 2097152) = Some 2093056"
proof -
  have g: "huge_page_size example_platform \<noteq> 0"
    by (simp add: example_platform_def)
  have b: "unat OverHeadbytes + unat (4096 :: size_t)
             + (unat (huge_page_size example_platform) - 1) < 2 ^ 64"
    by (simp add: example_platform_def OverHeadbytes_value)
  have p: "Plan example_platform 4096 = 2097152"
    by (simp add: example_platform_def Plan_def round_up_def OverHeadbytes_value)
  show ?thesis
    using g b Create_layout_without_wrap [OF g b example_Create]
    by (simp add: p OverHeadbytes_value)
qed


subsection \<open>The worlds of a Create call\<close>




subsection \<open>Name collisions and failed constructions\<close>










lemma hosting_world_facts:
  "hosted hosting_world 7 = [''stats'']"
  "fds hosting_world 7 = [(3, 0)]"
  "fds hosting_world 9 = []"
  "objs hosting_world 0 = Some (created_object example_platform 3 ''stats'' 4096)"
  "objs hosting_world 1 = None"
  "objs hosting_world (Suc 0) = None"
  "mappings hosting_world 9 = Map.empty"
  "alive hosting_world = (\<lambda>p. p = 7 \<or> p = 8 \<or> p = 9)"
  "may_inspect hosting_world = (\<lambda>a b. a = 9 \<and> b = 7)"
  by (simp_all add: hosting_world_def CreateShmem_def example_world_def registry_insert_def
      allocate_def open_fd_def map_object_def write_header_def created_object_def
      region_tag_def Let_def)



subsection \<open>The wait for readiness\<close>

lemma await_flag_props:
  "snd (await_flag n flag k) \<le> k + n
   \<and> (fst (await_flag n flag k) \<longleftrightarrow> (\<exists>i. k \<le> i \<and> i < k + n \<and> flag i))
   \<and> (fst (await_flag n flag k) \<longrightarrow> k < snd (await_flag n flag k)
          \<and> flag (snd (await_flag n flag k) - 1))
   \<and> (\<not> fst (await_flag n flag k) \<longrightarrow> snd (await_flag n flag k) = k + n)"
proof (induction n arbitrary: k)
  case 0
  then show ?case by simp
next
  case (Suc n)
  show ?case
  proof (cases "flag k")
    case True
    then show ?thesis by auto
  next
    case False
    have "(\<exists>i. k \<le> i \<and> i < k + Suc n \<and> flag i) \<longleftrightarrow> (\<exists>i. Suc k \<le> i \<and> i < Suc k + n \<and> flag i)"
      using False by (metis Suc_leI add_Suc_right add_Suc le_neq_implies_less Suc_leD)
    then show ?thesis
      using False Suc.IH [of "Suc k"] by auto
  qed
qed

lemma WaitForReady_props:
  "snd (WaitForReady P flag) \<le> spin_limit P + poll_limit P
   \<and> (fst (WaitForReady P flag) \<longleftrightarrow> (\<exists>i < spin_limit P + poll_limit P. flag i))
   \<and> (fst (WaitForReady P flag) \<longrightarrow> flag (snd (WaitForReady P flag) - 1))"
proof (cases "fst (await_flag (spin_limit P) flag 0)")
  case True
  then have w: "WaitForReady P flag = await_flag (spin_limit P) flag 0"
    by (cases "await_flag (spin_limit P) flag 0") (simp add: WaitForReady_def)
  show ?thesis
    unfolding w using True await_flag_props [of "spin_limit P" flag 0]
    by (auto intro: trans_less_add1)
next
  case False
  then have k: "snd (await_flag (spin_limit P) flag 0) = spin_limit P"
    and none: "\<not> (\<exists>i. i < spin_limit P \<and> flag i)"
    using await_flag_props [of "spin_limit P" flag 0] by auto
  have w: "WaitForReady P flag = await_flag (poll_limit P) flag (spin_limit P)"
    using False k
    by (cases "await_flag (spin_limit P) flag 0") (simp add: WaitForReady_def)
  have "(\<exists>i. spin_limit P \<le> i \<and> i < spin_limit P + poll_limit P \<and> flag i)
      \<longleftrightarrow> (\<exists>i < spin_limit P + poll_limit P. flag i)"
    using none by (meson not_le)
  then show ?thesis
    unfolding w using await_flag_props [of "poll_limit P" flag "spin_limit P"]
    by auto
qed


subsection \<open>Attach, step by step\<close>

lemma header_after_map:
  "header_at (map_object self base oid len (open_fd self lfd oid w)) self base
   = map_option obj_hdr (objs w oid)"
  by (simp add: header_at_def map_object_def open_fd_def)

lemma unwind_restores:
  assumes "lfd \<notin> fst ` set (fds w self)" and "mappings w self base = None"
  shows "unwind self lfd base
           (map_object self base oid len2
              (map_object self base oid len1 (open_fd self lfd oid w))) = w"
proof -
  have f: "filter (\<lambda>e. fst e \<noteq> lfd) (fds w self) = fds w self"
    using assms(1) by (auto simp: filter_id_conv)
  have m: "(mappings w self)(base := None) = mappings w self"
    using assms(2) by (simp add: fun_upd_idem)
  show ?thesis
    by (simp add: unwind_def close_fd_def unmap_def map_object_def open_fd_def f m)
qed


lemma Attach_discovered:
  assumes d: "OpenGhostShmemFd P w self name pid = Inr oid"
    and ob: "objs w oid = Some ob"
    and fresh: "lfd \<notin> fst ` set (fds w self)" "mappings w self base = None"
  shows "Attach P w self h client_version name pid lfd base marked =
     (if version (obj_hdr ob) \<noteq> client_version then (Inl VersionMismatchError, h, w)
      else if \<not> fst (WaitForReady P (flag_reads (readiness (obj_hdr ob)) marked))
      then (Inl ReadinessTimeoutError, h, w)
      else (Inr (), region_handle lfd base (OverHeadbytes + payload_size (obj_hdr ob)),
            map_object self base oid (OverHeadbytes + payload_size (obj_hdr ob))
              (map_object self base oid OverHeadbytes (open_fd self lfd oid w))))"
  using unwind_restores [OF fresh]
  by (simp add: Attach_def d header_after_map ob Let_def)




lemma example_discovery:
  "OpenGhostShmemFd example_platform hosting_world 9 ''stats'' 7 = Inr 0"
  by (simp add: OpenGhostShmemFd_def hosting_world_facts names_region_def created_object_def
      fresh_object_def region_tag_def)

lemma example_header:
  "obj_hdr (created_object example_platform 3 ''stats'' 4096)
   = \<lparr>version = 3, readiness = False, payload_size = 2093056\<rparr>"
  by (simp add: created_object_def init_header_def Plan_def round_up_def example_platform_def
      OverHeadbytes_value)

lemma example_fresh:
  "(4 :: c_int) \<notin> fst ` set (fds hosting_world 9)"
  "mappings hosting_world 9 0x20000000 = None"
  by (simp_all add: hosting_world_facts)

lemma example_wait:
  "fst (WaitForReady example_platform (flag_reads False (Some 2)))"
  "\<not> fst (WaitForReady example_platform (flag_reads False None))"
proof -
  have "flag_reads False (Some 2) 2"
    by (simp add: flag_reads_def)
  moreover have "(2 :: nat) < spin_limit example_platform + poll_limit example_platform"
    by (simp add: example_platform_def)
  ultimately show "fst (WaitForReady example_platform (flag_reads False (Some 2)))"
    using WaitForReady_props [of example_platform "flag_reads False (Some 2)"] by blast
  show "\<not> fst (WaitForReady example_platform (flag_reads False None))"
    using WaitForReady_props [of example_platform "flag_reads False None"]
    by (simp add: flag_reads_def)
qed

lemma example_Attach:
  "Attach example_platform hosting_world 9 h 3 ''stats'' 7 4 0x20000000 (Some 2)
   = (Inr (), region_handle 4 0x20000000 2097152,
      map_object 9 0x20000000 0 2097152
        (map_object 9 0x20000000 0 OverHeadbytes (open_fd 9 4 0 hosting_world)))"
  using Attach_discovered [OF example_discovery hosting_world_facts(4) example_fresh,
      where h = h and client_version = 3 and marked = "Some 2"]
  by (simp add: example_header example_wait OverHeadbytes_value)






text \<open>
  Claim C4. \<open>OverHeadbytes()\<close> returns the constant 4096. In the handle of every
  successful Create and of every successful Attach the header pointer is the start of the
  mapping (offset 0), a header can be read there, and \<open>bytes()\<close> is
  \<open>absolute_start()\<close> plus that constant, whatever the header holds.
\<close>

theorem payload_follows_reserved_header:
  "OverHeadbytes = 4096
   \<and> sint kHeaderReservedBytes = 4096
   \<and> (CreateShmem P w self v name S alloc mapped = (Inr h, w')
        \<longrightarrow> hdr' h = absolute_start h
          \<and> header_at w' self (absolute_start h) \<noteq> None
          \<and> bytes h = absolute_start h + OverHeadbytes)
   \<and> (Attach Q wa client h0 client_version name' pid lfd base marked = (Inr u, h1, w1)
        \<longrightarrow> hdr' h1 = absolute_start h1
          \<and> header_at w1 client (absolute_start h1) \<noteq> None
          \<and> bytes h1 = absolute_start h1 + OverHeadbytes)"
proof -
  have c: "CreateShmem P w self v name S alloc mapped = (Inr h, w')
        \<longrightarrow> hdr' h = absolute_start h
          \<and> header_at w' self (absolute_start h) \<noteq> None
          \<and> bytes h = absolute_start h + OverHeadbytes"
  proof
    assume a: "CreateShmem P w self v name S alloc mapped = (Inr h, w')"
    from a obtain fd oid base' where
      h: "h = region_handle fd base' (Plan P S)" and
      w': "w' = write_header oid (init_header v (Plan P S))
            (map_object self base' oid (Plan P S)
               (allocate self fd oid (region_tag P name) (Plan P S)
                  (registry_insert self name w)))"
      by (rule CreateShmem_Inr)
    have "header_at w' self base' = Some (init_header v (Plan P S))"
      unfolding w' by (rule header_after_Create)
    then show "hdr' h = absolute_start h
          \<and> header_at w' self (absolute_start h) \<noteq> None
          \<and> bytes h = absolute_start h + OverHeadbytes"
      by (simp add: h region_handle_def absolute_start_def bytes_def)
  qed
  have a: "Attach Q wa client h0 client_version name' pid lfd base marked = (Inr u, h1, w1)
        \<longrightarrow> hdr' h1 = absolute_start h1
          \<and> header_at w1 client (absolute_start h1) \<noteq> None
          \<and> bytes h1 = absolute_start h1 + OverHeadbytes"
    by (auto simp: Attach_def Let_def region_handle_def absolute_start_def bytes_def
        header_at_def map_object_def open_fd_def
        split: sum.splits option.splits if_splits prod.splits)
  show ?thesis
    using c a by (simp add: OverHeadbytes_value kHeaderReservedBytes_def)
qed


text \<open>
  The scenario: the host's handle of "stats", and the handle of the client that attaches
  to it with the right version while the host calls \<open>MarkReady\<close>.
\<close>

theorem payload_follows_reserved_header_witness:
  "bytes (region_handle 3 0x10000000 2097152)
     = absolute_start (region_handle 3 0x10000000 2097152) + 4096
   \<and> fst (Attach example_platform hosting_world 9 (GhostShmem_default 0 0) 3 ''stats'' 7 4
           0x20000000 (Some 2)) = Inr ()
   \<and> bytes (region_handle 4 0x20000000 2097152)
     = absolute_start (region_handle 4 0x20000000 2097152) + 4096
   \<and> absolute_start (region_handle 4 0x20000000 2097152) = 0x20000000"
  using payload_follows_reserved_header [where P = example_platform and w = example_world
      and self = 7 and v = 3 and name = "''stats''" and S = 4096 and alloc = "Some (3, 0)"
      and mapped = "Some 0x10000000" and h = "region_handle 3 0x10000000 2097152"
      and w' = hosting_world and Q = example_platform and wa = hosting_world and client = 9
      and ?h0.0 = "GhostShmem_default 0 0" and client_version = 3 and name' = "''stats''"
      and pid = 7 and lfd = 4 and base = "0x20000000" and marked = "Some 2" and u = "()"
      and ?h1.0 = "region_handle 4 0x20000000 2097152"
      and ?w1.0 = "map_object 9 0x20000000 0 2097152
        (map_object 9 0x20000000 0 OverHeadbytes (open_fd 9 4 0 hosting_world))"]
    example_Create example_Attach [of "GhostShmem_default 0 0"]
  by (simp add: absolute_start_def region_handle_def)

subsection \<open>The readiness flag under the host's stores\<close>


lemma MarkReady_is_a_store:
  "apply_store (op_store CallMarkReady) ob = MarkReady ob"
  by (simp add: MarkReady_def)




















subsection \<open>The region during and after Create\<close>








subsection \<open>The readiness flag is one-shot\<close>




end
